theory Spec2Isabelle
  imports Main "HOL-Library.Word"
begin

section \<open>The Web operator: data model\<close>

text \<open>
  The repository is a Kubernetes operator with one controller. Its two source files are
  \<^verbatim>\<open>api/v1alpha1/web_types.go\<close> (the \<^verbatim>\<open>Web\<close> custom resource) and
  \<^verbatim>\<open>internal/controller/web_controller.go\<close> (the \<^verbatim>\<open>Reconcile\<close> function).
  Structs are records; a Go struct that embeds \<^verbatim>\<open>metav1.ObjectMeta\<close> is a record
  extending \<open>ObjectMeta\<close>, so that \<^verbatim>\<open>web.Name\<close> reads \<open>Name web\<close>. A field that a
  struct literal of the source leaves out has Go's zero value: the empty string, the
  empty list, the empty map, \<open>None\<close> for a nil pointer.
  Field names are the source's; where two structs share a field name the later one is
  prefixed with its struct (\<open>Container_Name\<close>, \<open>Deployment_Spec\<close>), and the \<^verbatim>\<open>Image\<close>
  field of the Web spec is \<open>Spec_Image\<close> because \<open>Image\<close> is a constant of HOL.
\<close>

type_synonym int32 = "32 word"

subsection \<open>Errors of the API machinery\<close>

text \<open>
  \<^verbatim>\<open>k8s.io/apimachinery/pkg/api/errors\<close> classifies an error by its status reason.
  The controller asks two questions of an error, \<^verbatim>\<open>IsNotFound\<close> and
  \<^verbatim>\<open>IsAlreadyExists\<close>; every other error is a \<open>Failure\<close> with its message.
\<close>

datatype error = NotFound | AlreadyExists | Failure string

definition IsNotFound :: "error \<Rightarrow> bool" where
  "IsNotFound err = (err = NotFound)"

definition IsAlreadyExists :: "error \<Rightarrow> bool" where
  "IsAlreadyExists err = (err = AlreadyExists)"

text \<open>\<^verbatim>\<open>client.IgnoreNotFound\<close>: nil for a NotFound error, the error itself otherwise.\<close>

definition IgnoreNotFound :: "error option \<Rightarrow> error option" where
  "IgnoreNotFound err =
     (case err of None \<Rightarrow> None
      | Some e \<Rightarrow> if IsNotFound e then None else Some e)"

subsection \<open>Object metadata\<close>

record ObjectKey =
  Key_Namespace :: string
  Key_Name :: string

record OwnerReference =
  APIVersion :: string
  Kind :: string
  Owner_Name :: string
  Owner_UID :: string
  Controller :: bool
  BlockOwnerDeletion :: bool

record ObjectMeta =
  Name :: string
  Namespace :: string
  UID :: string
  Labels :: "string \<rightharpoonup> string"
  OwnerReferences :: "OwnerReference list"

subsection \<open>The Web resource (\<^verbatim>\<open>web_types.go\<close>)\<close>

text \<open>
  \<^verbatim>\<open>WebSpec\<close> declares \<^verbatim>\<open>Size\<close> and \<^verbatim>\<open>ContainerPort\<close>, both \<^verbatim>\<open>int32\<close>.
  Modelled from the spec: the fields \<^verbatim>\<open>Image\<close> and \<^verbatim>\<open>HtmlContent\<close>, which
  \<^verbatim>\<open>Reconcile\<close> reads (\<^verbatim>\<open>web.Spec.Image\<close>, \<^verbatim>\<open>web.Spec.HtmlContent\<close>) and which the
  declaration of \<^verbatim>\<open>WebSpec\<close> under \<^verbatim>\<open>src/\<close> does not have; the specification lists them
  among the spec attributes as a container image reference and inline static content,
  both strings.
\<close>

record WebSpec =
  Size :: int32
  ContainerPort :: int32
  Spec_Image :: string
  HtmlContent :: string

record Condition =
  Condition_Type :: string
  Condition_Status :: string
  Reason :: string
  Message :: string

record WebStatus =
  Conditions :: "Condition list"

record Web = ObjectMeta +
  Spec :: WebSpec
  Status :: WebStatus

subsection \<open>The dependents: ConfigMap and Deployment\<close>

text \<open>
  The parts of \<^verbatim>\<open>corev1\<close> and \<^verbatim>\<open>appsv1\<close> that the controller writes, and the two
  fields the claims ask about although the controller leaves them unset:
  \<^verbatim>\<open>DeploymentSpec.Replicas\<close> (a \<^verbatim>\<open>*int32\<close>) and \<^verbatim>\<open>Container.Ports\<close>.
\<close>

record ConfigMap = ObjectMeta +
  Data :: "string \<rightharpoonup> string"

record VolumeMount =
  VolumeMount_Name :: string
  MountPath :: string

record Container_Port =
  Port_Name :: string
  Port_ContainerPort :: int32

record Container =
  Container_Name :: string
  Container_Image :: string
  Ports :: "Container_Port list"
  VolumeMounts :: "VolumeMount list"

record ConfigMapVolumeSource =
  LocalObjectReference_Name :: string

record VolumeSource =
  VolumeSource_ConfigMap :: "ConfigMapVolumeSource option"

record Volume =
  Volume_Name :: string
  Volume_VolumeSource :: VolumeSource

record PodSpec =
  Volumes :: "Volume list"
  Containers :: "Container list"

record PodTemplateSpec = ObjectMeta +
  Template_Spec :: PodSpec

record LabelSelector =
  MatchLabels :: "string \<rightharpoonup> string"

record DeploymentSpec =
  Replicas :: "int32 option"
  Selector :: "LabelSelector option"
  Template :: PodTemplateSpec

record Deployment = ObjectMeta +
  Deployment_Spec :: DeploymentSpec

subsection \<open>Request and result of a reconciliation pass\<close>

record Request =
  NamespacedName :: ObjectKey

record Result =
  Requeue :: bool
  RequeueAfter :: int

text \<open>\<^verbatim>\<open>ctrl.Result{}\<close>, the only result the controller returns.\<close>

definition Result_zero :: Result where
  "Result_zero = \<lparr>Requeue = False, RequeueAfter = 0\<rparr>"

section \<open>The collaborators of the reconciler\<close>

text \<open>
  \<^verbatim>\<open>WebReconciler\<close> embeds a \<^verbatim>\<open>client.Client\<close> and holds a \<^verbatim>\<open>*runtime.Scheme\<close>.
  \<^verbatim>\<open>Reconcile\<close> uses \<^verbatim>\<open>r.Get\<close> at three object types, \<^verbatim>\<open>r.Create\<close> at two, and
  \<^verbatim>\<open>ctrl.SetControllerReference\<close> with \<^verbatim>\<open>r.Scheme\<close>. None of them is code of the
  repository, so the reconciler takes them as parameters: a record of operations on a
  world \<open>'s\<close> about which nothing is assumed. Each operation returns its answer and the
  world after the call.

  \<^item> \<^verbatim>\<open>Get\<close> fills the object it is given, or returns an error: \<open>error + object\<close>.
  \<^item> \<^verbatim>\<open>Create\<close> returns an error or nil: \<open>error option\<close>. The fields of the object
    that this model has are the ones the caller set; the call leaves them as they
    are (the server fills in others, such as the resource version).
  \<^item> \<^verbatim>\<open>SetControllerReference(owner, controlled, scheme)\<close> sees the controlled object
    through \<^verbatim>\<open>metav1.Object\<close>, that is its metadata, and changes nothing but its
    owner references: the operation gets the owner and the metadata and returns the
    new list of owner references, or an error. It is a function of its arguments in
    Go; here it is given the world as the other operations are, so that an
    instance can record the call. A function that does not look at the world is the
    special case that returns it unchanged.
\<close>

record 's WebReconciler =
  Get_Web :: "ObjectKey \<Rightarrow> 's \<Rightarrow> (error + Web) \<times> 's"
  Get_ConfigMap :: "ObjectKey \<Rightarrow> 's \<Rightarrow> (error + ConfigMap) \<times> 's"
  Get_Deployment :: "ObjectKey \<Rightarrow> 's \<Rightarrow> (error + Deployment) \<times> 's"
  Create_ConfigMap :: "ConfigMap \<Rightarrow> 's \<Rightarrow> error option \<times> 's"
  Create_Deployment :: "Deployment \<Rightarrow> 's \<Rightarrow> error option \<times> 's"
  SetControllerReference :: "Web \<Rightarrow> ObjectMeta \<Rightarrow> 's \<Rightarrow> (error + OwnerReference list) \<times> 's"

section \<open>Reconcile (\<^verbatim>\<open>web_controller.go\<close>, lines 59 to 161)\<close>

text \<open>The ConfigMap literal of lines 75 to 83.\<close>

definition new_ConfigMap :: "Web \<Rightarrow> ConfigMap" where
  "new_ConfigMap web =
     \<lparr>Name = Name web @ ''-cm'',
      Namespace = Namespace web,
      UID = '''',
      Labels = Map.empty,
      OwnerReferences = [],
      Data = [''index.html'' \<mapsto> HtmlContent (Spec web)]\<rparr>"

text \<open>
  The Deployment literal of lines 102 to 133, and the assignment of lines 134 to 145
  to \<^verbatim>\<open>dep.Spec.Template.Spec.Volumes\<close>, which reads \<^verbatim>\<open>cm.Name\<close>.
\<close>

definition new_Deployment :: "Web \<Rightarrow> ConfigMap \<Rightarrow> Deployment" where
  "new_Deployment web cm =
     (let dep =
        \<lparr>Name = Name web @ ''deployment'',
         Namespace = Namespace web,
         UID = '''',
         Labels = Map.empty,
         OwnerReferences = [],
         Deployment_Spec =
           \<lparr>Replicas = None,
            Selector = Some \<lparr>MatchLabels = [''app'' \<mapsto> Name web]\<rparr>,
            Template =
              \<lparr>Name = '''',
               Namespace = '''',
               UID = '''',
               Labels = [''app'' \<mapsto> Name web],
               OwnerReferences = [],
               Template_Spec =
                 \<lparr>Volumes = [],
                  Containers =
                    [\<lparr>Container_Name = ''web-container'',
                      Container_Image = Spec_Image (Spec web),
                      Ports = [],
                      VolumeMounts =
                        [\<lparr>VolumeMount_Name = ''html'', MountPath = ''/app''\<rparr>]\<rparr>]\<rparr>\<rparr>\<rparr>\<rparr>
      in dep\<lparr>Deployment_Spec := (Deployment_Spec dep)
           \<lparr>Template := (Template (Deployment_Spec dep))
             \<lparr>Template_Spec := (Template_Spec (Template (Deployment_Spec dep)))
               \<lparr>Volumes :=
                  [\<lparr>Volume_Name = ''html'',
                    Volume_VolumeSource =
                      \<lparr>VolumeSource_ConfigMap =
                         Some \<lparr>LocalObjectReference_Name = Name cm\<rparr>\<rparr>\<rparr>]\<rparr>\<rparr>\<rparr>\<rparr>)"

text \<open>
  Lines 72 to 97. The block either returns from \<^verbatim>\<open>Reconcile\<close> (\<open>Inl\<close>, with the
  returned pair) or falls through with a value for the variable \<^verbatim>\<open>cm\<close> (\<open>Inr\<close>):
  the object \<^verbatim>\<open>Get\<close> filled, or the one the block built and passed to
  \<^verbatim>\<open>Create\<close>.
\<close>

definition reconcile_ConfigMap ::
  "'s WebReconciler \<Rightarrow> Web \<Rightarrow> 's \<Rightarrow> ((Result \<times> error option) + ConfigMap) \<times> 's" where
  "reconcile_ConfigMap r web s =
     (case Get_ConfigMap r \<lparr>Key_Namespace = Namespace web, Key_Name = Name web @ ''-cm''\<rparr> s of
        (Inl err_cm, s1) \<Rightarrow>
          if IsNotFound err_cm then
            (let cm = new_ConfigMap web in
             case SetControllerReference r web (ObjectMeta.truncate cm) s1 of
               (Inl err, s2) \<Rightarrow> (Inl (Result_zero, Some err), s2)
             | (Inr refs, s2) \<Rightarrow>
                 (let cm = cm\<lparr>OwnerReferences := refs\<rparr> in
                  case Create_ConfigMap r cm s2 of
                    (Some err, s3) \<Rightarrow>
                      if \<not> IsAlreadyExists err then (Inl (Result_zero, Some err), s3)
                      else (Inr cm, s3)
                  | (None, s3) \<Rightarrow> (Inr cm, s3)))
          else (Inl (Result_zero, Some err_cm), s1)
      | (Inr cm, s1) \<Rightarrow> (Inr cm, s1))"

text \<open>Lines 99 to 160, given the Web and the variable \<^verbatim>\<open>cm\<close>.\<close>

definition reconcile_Deployment ::
  "'s WebReconciler \<Rightarrow> Web \<Rightarrow> ConfigMap \<Rightarrow> 's \<Rightarrow> (Result \<times> error option) \<times> 's" where
  "reconcile_Deployment r web cm s =
     (case Get_Deployment r
             \<lparr>Key_Namespace = Namespace web, Key_Name = Name web @ ''deployment''\<rparr> s of
        (Inl err_dep, s1) \<Rightarrow>
          if IsNotFound err_dep then
            (let dep = new_Deployment web cm in
             case SetControllerReference r web (ObjectMeta.truncate dep) s1 of
               (Inl err, s2) \<Rightarrow> ((Result_zero, Some err), s2)
             | (Inr refs, s2) \<Rightarrow>
                 (let dep = dep\<lparr>OwnerReferences := refs\<rparr> in
                  case Create_Deployment r dep s2 of
                    (Some err, s3) \<Rightarrow>
                      if \<not> IsAlreadyExists err then ((Result_zero, Some err), s3)
                      else ((Result_zero, None), s3)
                  | (None, s3) \<Rightarrow> ((Result_zero, None), s3)))
          else ((Result_zero, Some err_dep), s1)
      | (Inr dep, s1) \<Rightarrow> ((Result_zero, None), s1))"

text \<open>The whole function: lines 62 to 70, then the two blocks.\<close>

definition Reconcile ::
  "'s WebReconciler \<Rightarrow> Request \<Rightarrow> 's \<Rightarrow> (Result \<times> error option) \<times> 's" where
  "Reconcile r req s =
     (case Get_Web r (NamespacedName req) s of
        (Inl err, s1) \<Rightarrow>
          if IsNotFound err then ((Result_zero, None), s1)
          else ((Result_zero, IgnoreNotFound (Some err)), s1)
      | (Inr web, s1) \<Rightarrow>
          (case reconcile_ConfigMap r web s1 of
             (Inl ret, s2) \<Rightarrow> (ret, s2)
           | (Inr cm, s2) \<Rightarrow> reconcile_Deployment r web cm s2))"

section \<open>Observing a pass\<close>

text \<open>
  What a pass does is the sequence of calls it makes to its collaborators, each with
  the answer it got. \<open>recording r\<close> is the reconciler \<open>r\<close> with a log beside its world:
  every operation does what it does in \<open>r\<close> and appends one event.
\<close>

datatype event =
  GetWeb ObjectKey "error + Web"
| GetConfigMap ObjectKey "error + ConfigMap"
| GetDeployment ObjectKey "error + Deployment"
| SetOwner Web ObjectMeta "error + OwnerReference list"
| CreateConfigMap ConfigMap "error option"
| CreateDeployment Deployment "error option"

definition logged ::
  "('s \<Rightarrow> 'a \<times> 's) \<Rightarrow> ('a \<Rightarrow> event) \<Rightarrow> 's \<times> event list \<Rightarrow> 'a \<times> 's \<times> event list" where
  "logged f ev = (\<lambda>(s, tr). case f s of (a, s') \<Rightarrow> (a, (s', tr @ [ev a])))"

definition recording :: "'s WebReconciler \<Rightarrow> ('s \<times> event list) WebReconciler" where
  "recording r =
     \<lparr>Get_Web = (\<lambda>k. logged (Get_Web r k) (GetWeb k)),
      Get_ConfigMap = (\<lambda>k. logged (Get_ConfigMap r k) (GetConfigMap k)),
      Get_Deployment = (\<lambda>k. logged (Get_Deployment r k) (GetDeployment k)),
      Create_ConfigMap = (\<lambda>cm. logged (Create_ConfigMap r cm) (CreateConfigMap cm)),
      Create_Deployment = (\<lambda>dep. logged (Create_Deployment r dep) (CreateDeployment dep)),
      SetControllerReference =
        (\<lambda>owner m. logged (SetControllerReference r owner m) (SetOwner owner m))\<rparr>"

text \<open>The writes of a pass: \<^verbatim>\<open>Create\<close> is the only mutating call of the controller.\<close>

fun is_write :: "event \<Rightarrow> bool" where
  "is_write (CreateConfigMap cm res) = True"
| "is_write (CreateDeployment dep res) = True"
| "is_write ev = False"

text \<open>
  The error taxonomy in the words of the specification (section 7), used to state the
  claims about errors: an answer is a failure unless it is a success, a NotFound to a
  fetch, or an AlreadyExists to a create. \<open>failure ev\<close> is the error of a failed call.
\<close>

fun failure :: "event \<Rightarrow> error option" where
  "failure (GetWeb k (Inl e)) = (if e = NotFound then None else Some e)"
| "failure (GetConfigMap k (Inl e)) = (if e = NotFound then None else Some e)"
| "failure (GetDeployment k (Inl e)) = (if e = NotFound then None else Some e)"
| "failure (SetOwner owner m (Inl e)) = Some e"
| "failure (CreateConfigMap cm (Some e)) = (if e = AlreadyExists then None else Some e)"
| "failure (CreateDeployment dep (Some e)) = (if e = AlreadyExists then None else Some e)"
| "failure ev = None"

text \<open>
  The calls of the workload step: the fetch and the create of the Deployment, and the
  ownership link set on the object named after the Web with the suffix
  \<^verbatim>\<open>deployment\<close>.
\<close>

fun workload_call :: "event \<Rightarrow> bool" where
  "workload_call (GetDeployment k res) = True"
| "workload_call (CreateDeployment dep res) = True"
| "workload_call (SetOwner owner m res) = (Name m = Name owner @ ''deployment'')"
| "workload_call ev = False"

text \<open>The keys under which \<^verbatim>\<open>Reconcile\<close> looks for the dependents of a Web.\<close>

abbreviation (input) cmKey :: "Web \<Rightarrow> ObjectKey" where
  "cmKey web \<equiv> \<lparr>Key_Namespace = Namespace web, Key_Name = Name web @ ''-cm''\<rparr>"

abbreviation (input) depKey :: "Web \<Rightarrow> ObjectKey" where
  "depKey web \<equiv> \<lparr>Key_Namespace = Namespace web, Key_Name = Name web @ ''deployment''\<rparr>"

section \<open>A state store\<close>

text \<open>
  Modelled from the spec: the state store, which is not code of the repository. The
  specification's section 6 asks of it
  \<^verbatim>\<open>get(kind, name, namespace) -> object | NotFound\<close>,
  \<^verbatim>\<open>create(object) -> ok | AlreadyExists | error\<close> and
  \<^verbatim>\<open>setOwner(child, parent) -> ok | error\<close>. This instance of the collaborators
  serves the claims that speak of the objects that exist. A cluster holds the objects
  of the three kinds by namespace and name. \<open>inject\<close> makes a call fail with a given
  error instead of reaching the store: an outage, or a read from a cache that has
  not seen an object yet.
\<close>

record cluster =
  webs :: "ObjectKey \<rightharpoonup> Web"
  configMaps :: "ObjectKey \<rightharpoonup> ConfigMap"
  deployments :: "ObjectKey \<rightharpoonup> Deployment"

datatype op = OpGetWeb | OpGetConfigMap | OpGetDeployment | OpCreateConfigMap | OpCreateDeployment

record GroupVersionKind =
  GVK_Group :: string
  GVK_Version :: string
  GVK_Kind :: string

text \<open>
  Of the scheme the reconciler needs one answer: the group, version and kind under
  which the Go type \<^verbatim>\<open>Web\<close> is registered, if it is.
\<close>

type_synonym Scheme = "GroupVersionKind option"

text \<open>
  Modelled from the spec: the ownership link is the owned-by reference of section 9, naming
  the parent by kind, name and UID and marked as the controller. It fails when
  the scheme does not know the owner's type.
\<close>

definition controllerRef :: "GroupVersionKind \<Rightarrow> Web \<Rightarrow> OwnerReference" where
  "controllerRef gvk owner =
     \<lparr>APIVersion = GVK_Group gvk @ ''/'' @ GVK_Version gvk,
      Kind = GVK_Kind gvk,
      Owner_Name = Name owner,
      Owner_UID = UID owner,
      Controller = True,
      BlockOwnerDeletion = True\<rparr>"

definition setOwner :: "Scheme \<Rightarrow> Web \<Rightarrow> ObjectMeta \<Rightarrow> error + OwnerReference list" where
  "setOwner sch owner m =
     (case sch of
        None \<Rightarrow> Inl (Failure ''no kind is registered for the type v1alpha1.Web'')
      | Some gvk \<Rightarrow> Inr (OwnerReferences m @ [controllerRef gvk owner]))"

definition store_get :: "op \<Rightarrow> (op \<Rightarrow> error option) \<Rightarrow> (ObjectKey \<rightharpoonup> 'a) \<Rightarrow> ObjectKey \<Rightarrow> error + 'a" where
  "store_get p inject objs k =
     (case inject p of
        Some e \<Rightarrow> Inl e
      | None \<Rightarrow> (case objs k of None \<Rightarrow> Inl NotFound | Some obj \<Rightarrow> Inr obj))"

definition objectKey :: "'a ObjectMeta_scheme \<Rightarrow> ObjectKey" where
  "objectKey obj = \<lparr>Key_Namespace = Namespace obj, Key_Name = Name obj\<rparr>"

definition store_create_ConfigMap ::
  "(op \<Rightarrow> error option) \<Rightarrow> ConfigMap \<Rightarrow> cluster \<Rightarrow> error option \<times> cluster" where
  "store_create_ConfigMap inject cm c =
     (case inject OpCreateConfigMap of
        Some e \<Rightarrow> (Some e, c)
      | None \<Rightarrow>
          (case configMaps c (objectKey cm) of
             Some existing \<Rightarrow> (Some AlreadyExists, c)
           | None \<Rightarrow> (None, c\<lparr>configMaps := (configMaps c)(objectKey cm \<mapsto> cm)\<rparr>)))"

definition store_create_Deployment ::
  "(op \<Rightarrow> error option) \<Rightarrow> Deployment \<Rightarrow> cluster \<Rightarrow> error option \<times> cluster" where
  "store_create_Deployment inject dep c =
     (case inject OpCreateDeployment of
        Some e \<Rightarrow> (Some e, c)
      | None \<Rightarrow>
          (case deployments c (objectKey dep) of
             Some existing \<Rightarrow> (Some AlreadyExists, c)
           | None \<Rightarrow> (None, c\<lparr>deployments := (deployments c)(objectKey dep \<mapsto> dep)\<rparr>)))"

definition store :: "Scheme \<Rightarrow> (op \<Rightarrow> error option) \<Rightarrow> cluster WebReconciler" where
  "store sch inject =
     \<lparr>Get_Web = (\<lambda>k c. (store_get OpGetWeb inject (webs c) k, c)),
      Get_ConfigMap = (\<lambda>k c. (store_get OpGetConfigMap inject (configMaps c) k, c)),
      Get_Deployment = (\<lambda>k c. (store_get OpGetDeployment inject (deployments c) k, c)),
      Create_ConfigMap = store_create_ConfigMap inject,
      Create_Deployment = store_create_Deployment inject,
      SetControllerReference = (\<lambda>owner m c. (setOwner sch owner m, c))\<rparr>"

text \<open>No call fails by injection.\<close>

definition healthy :: "op \<Rightarrow> error option" where
  "healthy p = None"

section \<open>The scenario of the specification\<close>

text \<open>
  Section 8 of the specification gives one concrete scenario: the Web \<^verbatim>\<open>site\<close> in
  namespace \<^verbatim>\<open>ns\<close> with size 2, container port 80, image \<^verbatim>\<open>nginx:1.25\<close> and content
  \<^verbatim>\<open><h1>hi</h1>\<close>. The objects expected of it are written out here by hand; the
  group and version of the Web kind are those of the controller's RBAC markers and of
  the package \<^verbatim>\<open>v1alpha1\<close>.
\<close>

definition web_gvk :: GroupVersionKind where
  "web_gvk = \<lparr>GVK_Group = ''epam.com'', GVK_Version = ''v1alpha1'', GVK_Kind = ''Web''\<rparr>"

definition site :: Web where
  "site =
     \<lparr>Name = ''site'', Namespace = ''ns'', UID = ''uid-of-site'', Labels = Map.empty,
      OwnerReferences = [],
      Spec = \<lparr>Size = 2, ContainerPort = 80, Spec_Image = ''nginx:1.25'',
              HtmlContent = ''<h1>hi</h1>''\<rparr>,
      Status = \<lparr>Conditions = []\<rparr>\<rparr>"

definition site_request :: Request where
  "site_request = \<lparr>NamespacedName = \<lparr>Key_Namespace = ''ns'', Key_Name = ''site''\<rparr>\<rparr>"

definition site_owner :: OwnerReference where
  "site_owner =
     \<lparr>APIVersion = ''epam.com/v1alpha1'', Kind = ''Web'', Owner_Name = ''site'',
      Owner_UID = ''uid-of-site'', Controller = True, BlockOwnerDeletion = True\<rparr>"

definition site_cm :: ConfigMap where
  "site_cm =
     \<lparr>Name = ''site-cm'', Namespace = ''ns'', UID = '''', Labels = Map.empty,
      OwnerReferences = [site_owner],
      Data = [''index.html'' \<mapsto> ''<h1>hi</h1>'']\<rparr>"

definition site_deployment :: Deployment where
  "site_deployment =
     \<lparr>Name = ''sitedeployment'', Namespace = ''ns'', UID = '''', Labels = Map.empty,
      OwnerReferences = [site_owner],
      Deployment_Spec =
        \<lparr>Replicas = None,
         Selector = Some \<lparr>MatchLabels = [''app'' \<mapsto> ''site'']\<rparr>,
         Template =
           \<lparr>Name = '''', Namespace = '''', UID = '''', Labels = [''app'' \<mapsto> ''site''],
            OwnerReferences = [],
            Template_Spec =
              \<lparr>Volumes =
                 [\<lparr>Volume_Name = ''html'',
                   Volume_VolumeSource =
                     \<lparr>VolumeSource_ConfigMap =
                        Some \<lparr>LocalObjectReference_Name = ''site-cm''\<rparr>\<rparr>\<rparr>],
               Containers =
                 [\<lparr>Container_Name = ''web-container'',
                   Container_Image = ''nginx:1.25'',
                   Ports = [],
                   VolumeMounts =
                     [\<lparr>VolumeMount_Name = ''html'', MountPath = ''/app''\<rparr>]\<rparr>]\<rparr>\<rparr>\<rparr>\<rparr>"

text \<open>
  Three clusters: the Web alone, the Web with its content holder, and the Web with both
  dependents; and the third after the Web has been deleted.
\<close>

definition site_only :: cluster where
  "site_only =
     \<lparr>webs = [\<lparr>Key_Namespace = ''ns'', Key_Name = ''site''\<rparr> \<mapsto> site],
      configMaps = Map.empty,
      deployments = Map.empty\<rparr>"

definition site_partial :: cluster where
  "site_partial =
     site_only\<lparr>configMaps := [\<lparr>Key_Namespace = ''ns'', Key_Name = ''site-cm''\<rparr> \<mapsto> site_cm]\<rparr>"

definition site_converged :: cluster where
  "site_converged =
     site_partial\<lparr>deployments :=
       [\<lparr>Key_Namespace = ''ns'', Key_Name = ''sitedeployment''\<rparr> \<mapsto> site_deployment]\<rparr>"

definition site_deleted :: cluster where
  "site_deleted = site_converged\<lparr>webs := Map.empty\<rparr>"

text \<open>
  Two injections: the store refuses to create Deployments, and the cache does not yet
  show the ConfigMap that the store has.
\<close>

definition outage :: "op \<Rightarrow> error option" where
  "outage p = (if p = OpCreateDeployment then Some (Failure ''store outage'') else None)"

definition stale_cache :: "op \<Rightarrow> error option" where
  "stale_cache p = (if p = OpGetConfigMap then Some NotFound else None)"

text \<open>Two more: both of these at once, and a cache that does not yet show the Deployment.\<close>

definition stale_cache_and_outage :: "op \<Rightarrow> error option" where
  "stale_cache_and_outage p = (if p = OpGetConfigMap then Some NotFound else outage p)"

definition stale_Deployment_cache :: "op \<Rightarrow> error option" where
  "stale_Deployment_cache p = (if p = OpGetDeployment then Some NotFound else None)"

text \<open>The calls of six passes over these clusters, as the lemmas below show.\<close>

definition first_pass_trace :: "event list" where
  "first_pass_trace =
     [GetWeb \<lparr>Key_Namespace = ''ns'', Key_Name = ''site''\<rparr> (Inr site),
      GetConfigMap \<lparr>Key_Namespace = ''ns'', Key_Name = ''site-cm''\<rparr> (Inl NotFound),
      SetOwner site (ObjectMeta.truncate (new_ConfigMap site)) (Inr [site_owner]),
      CreateConfigMap site_cm None,
      GetDeployment \<lparr>Key_Namespace = ''ns'', Key_Name = ''sitedeployment''\<rparr> (Inl NotFound),
      SetOwner site (ObjectMeta.truncate (new_Deployment site site_cm)) (Inr [site_owner]),
      CreateDeployment site_deployment None]"

definition outage_trace :: "event list" where
  "outage_trace =
     [GetWeb \<lparr>Key_Namespace = ''ns'', Key_Name = ''site''\<rparr> (Inr site),
      GetConfigMap \<lparr>Key_Namespace = ''ns'', Key_Name = ''site-cm''\<rparr> (Inl NotFound),
      SetOwner site (ObjectMeta.truncate (new_ConfigMap site)) (Inr [site_owner]),
      CreateConfigMap site_cm None,
      GetDeployment \<lparr>Key_Namespace = ''ns'', Key_Name = ''sitedeployment''\<rparr> (Inl NotFound),
      SetOwner site (ObjectMeta.truncate (new_Deployment site site_cm)) (Inr [site_owner]),
      CreateDeployment site_deployment (Some (Failure ''store outage''))]"

definition race_trace :: "event list" where
  "race_trace =
     [GetWeb \<lparr>Key_Namespace = ''ns'', Key_Name = ''site''\<rparr> (Inr site),
      GetConfigMap \<lparr>Key_Namespace = ''ns'', Key_Name = ''site-cm''\<rparr> (Inl NotFound),
      SetOwner site (ObjectMeta.truncate (new_ConfigMap site)) (Inr [site_owner]),
      CreateConfigMap site_cm (Some AlreadyExists),
      GetDeployment \<lparr>Key_Namespace = ''ns'', Key_Name = ''sitedeployment''\<rparr> (Inl NotFound),
      SetOwner site (ObjectMeta.truncate (new_Deployment site site_cm)) (Inr [site_owner]),
      CreateDeployment site_deployment None]"

definition unregistered_trace :: "event list" where
  "unregistered_trace =
     [GetWeb \<lparr>Key_Namespace = ''ns'', Key_Name = ''site''\<rparr> (Inr site),
      GetConfigMap \<lparr>Key_Namespace = ''ns'', Key_Name = ''site-cm''\<rparr> (Inl NotFound),
      SetOwner site (ObjectMeta.truncate (new_ConfigMap site))
        (Inl (Failure ''no kind is registered for the type v1alpha1.Web''))]"

definition race_outage_trace :: "event list" where
  "race_outage_trace =
     [GetWeb \<lparr>Key_Namespace = ''ns'', Key_Name = ''site''\<rparr> (Inr site),
      GetConfigMap \<lparr>Key_Namespace = ''ns'', Key_Name = ''site-cm''\<rparr> (Inl NotFound),
      SetOwner site (ObjectMeta.truncate (new_ConfigMap site)) (Inr [site_owner]),
      CreateConfigMap site_cm (Some AlreadyExists),
      GetDeployment \<lparr>Key_Namespace = ''ns'', Key_Name = ''sitedeployment''\<rparr> (Inl NotFound),
      SetOwner site (ObjectMeta.truncate (new_Deployment site site_cm)) (Inr [site_owner]),
      CreateDeployment site_deployment (Some (Failure ''store outage''))]"

definition Deployment_race_trace :: "event list" where
  "Deployment_race_trace =
     [GetWeb \<lparr>Key_Namespace = ''ns'', Key_Name = ''site''\<rparr> (Inr site),
      GetConfigMap \<lparr>Key_Namespace = ''ns'', Key_Name = ''site-cm''\<rparr> (Inr site_cm),
      GetDeployment \<lparr>Key_Namespace = ''ns'', Key_Name = ''sitedeployment''\<rparr> (Inl NotFound),
      SetOwner site (ObjectMeta.truncate (new_Deployment site site_cm)) (Inr [site_owner]),
      CreateDeployment site_deployment (Some AlreadyExists)]"

section \<open>The runs of a pass\<close>

lemmas pass_defs = Reconcile_def reconcile_ConfigMap_def reconcile_Deployment_def
  IsNotFound_def IsAlreadyExists_def IgnoreNotFound_def Let_def

lemmas store_defs = store_def store_get_def store_create_ConfigMap_def
  store_create_Deployment_def setOwner_def objectKey_def healthy_def controllerRef_def

lemmas site_defs = site_def site_request_def site_owner_def site_cm_def site_deployment_def
  site_only_def site_partial_def site_converged_def site_deleted_def web_gvk_def

text \<open>What the recording reconciler's operations do.\<close>

lemma recording_simps [simp]:
  "Get_Web (recording r) k (s, tr) =
     (case Get_Web r k s of (a, s') \<Rightarrow> (a, (s', tr @ [GetWeb k a])))"
  "Get_ConfigMap (recording r) k (s, tr) =
     (case Get_ConfigMap r k s of (b, s') \<Rightarrow> (b, (s', tr @ [GetConfigMap k b])))"
  "Get_Deployment (recording r) k (s, tr) =
     (case Get_Deployment r k s of (c, s') \<Rightarrow> (c, (s', tr @ [GetDeployment k c])))"
  "Create_ConfigMap (recording r) cm (s, tr) =
     (case Create_ConfigMap r cm s of (d, s') \<Rightarrow> (d, (s', tr @ [CreateConfigMap cm d])))"
  "Create_Deployment (recording r) dep (s, tr) =
     (case Create_Deployment r dep s of (d, s') \<Rightarrow> (d, (s', tr @ [CreateDeployment dep d])))"
  "SetControllerReference (recording r) owner m (s, tr) =
     (case SetControllerReference r owner m s of (f, s') \<Rightarrow> (f, (s', tr @ [SetOwner owner m f])))"
  by (simp_all add: recording_def logged_def)

lemma ConfigMap_block_cases [consumes 1, case_names found fetch_failed link_failed create_failed created conflict]:
  assumes "reconcile_ConfigMap (recording r) web (s, tr0) = (x, (s', tr))"
  obtains
    cm where "x = Inr cm" "tr = tr0 @ [GetConfigMap (cmKey web) (Inr cm)]"
  | e where "e \<noteq> NotFound" "x = Inl (Result_zero, Some e)"
      "tr = tr0 @ [GetConfigMap (cmKey web) (Inl e)]"
  | e where "x = Inl (Result_zero, Some e)"
      "tr = tr0 @ [GetConfigMap (cmKey web) (Inl NotFound),
                   SetOwner web (ObjectMeta.truncate (new_ConfigMap web)) (Inl e)]"
  | refs e where "e \<noteq> AlreadyExists" "x = Inl (Result_zero, Some e)"
      "tr = tr0 @ [GetConfigMap (cmKey web) (Inl NotFound),
                   SetOwner web (ObjectMeta.truncate (new_ConfigMap web)) (Inr refs),
                   CreateConfigMap ((new_ConfigMap web)\<lparr>OwnerReferences := refs\<rparr>) (Some e)]"
  | refs where "x = Inr ((new_ConfigMap web)\<lparr>OwnerReferences := refs\<rparr>)"
      "tr = tr0 @ [GetConfigMap (cmKey web) (Inl NotFound),
                   SetOwner web (ObjectMeta.truncate (new_ConfigMap web)) (Inr refs),
                   CreateConfigMap ((new_ConfigMap web)\<lparr>OwnerReferences := refs\<rparr>) None]"
  | refs where "x = Inr ((new_ConfigMap web)\<lparr>OwnerReferences := refs\<rparr>)"
      "tr = tr0 @ [GetConfigMap (cmKey web) (Inl NotFound),
                   SetOwner web (ObjectMeta.truncate (new_ConfigMap web)) (Inr refs),
                   CreateConfigMap ((new_ConfigMap web)\<lparr>OwnerReferences := refs\<rparr>)
                     (Some AlreadyExists)]"
  using assms
  by (auto simp: reconcile_ConfigMap_def Let_def IsNotFound_def IsAlreadyExists_def
      split: prod.splits sum.splits if_splits option.splits)

lemma Deployment_block_cases [consumes 1, case_names found fetch_failed link_failed create_failed created conflict]:
  assumes "reconcile_Deployment (recording r) web cm (s, tr0) = ((res, err), (s', tr))"
  obtains
    dep where "res = Result_zero" "err = None" "tr = tr0 @ [GetDeployment (depKey web) (Inr dep)]"
  | e where "e \<noteq> NotFound" "res = Result_zero" "err = Some e"
      "tr = tr0 @ [GetDeployment (depKey web) (Inl e)]"
  | e where "res = Result_zero" "err = Some e"
      "tr = tr0 @ [GetDeployment (depKey web) (Inl NotFound),
                   SetOwner web (ObjectMeta.truncate (new_Deployment web cm)) (Inl e)]"
  | refs e where "e \<noteq> AlreadyExists" "res = Result_zero" "err = Some e"
      "tr = tr0 @ [GetDeployment (depKey web) (Inl NotFound),
                   SetOwner web (ObjectMeta.truncate (new_Deployment web cm)) (Inr refs),
                   CreateDeployment ((new_Deployment web cm)\<lparr>OwnerReferences := refs\<rparr>) (Some e)]"
  | refs where "res = Result_zero" "err = None"
      "tr = tr0 @ [GetDeployment (depKey web) (Inl NotFound),
                   SetOwner web (ObjectMeta.truncate (new_Deployment web cm)) (Inr refs),
                   CreateDeployment ((new_Deployment web cm)\<lparr>OwnerReferences := refs\<rparr>) None]"
  | refs where "res = Result_zero" "err = None"
      "tr = tr0 @ [GetDeployment (depKey web) (Inl NotFound),
                   SetOwner web (ObjectMeta.truncate (new_Deployment web cm)) (Inr refs),
                   CreateDeployment ((new_Deployment web cm)\<lparr>OwnerReferences := refs\<rparr>)
                     (Some AlreadyExists)]"
  using assms
  by (auto simp: reconcile_Deployment_def Let_def IsNotFound_def IsAlreadyExists_def
      split: prod.splits sum.splits if_splits option.splits)

text \<open>
  Recording changes neither the outcome of a pass nor the world after it: what is proved
  of \<open>Reconcile (recording r)\<close> about them holds of \<open>Reconcile r\<close>.
\<close>

lemma recording_ConfigMap_block:
  "fst (reconcile_ConfigMap (recording r) web (s, tr0)) = fst (reconcile_ConfigMap r web s) \<and>
   fst (snd (reconcile_ConfigMap (recording r) web (s, tr0))) = snd (reconcile_ConfigMap r web s)"
  by (simp add: reconcile_ConfigMap_def Let_def split: prod.splits sum.splits option.splits)

lemma recording_Deployment_block:
  "fst (reconcile_Deployment (recording r) web cm (s, tr0)) = fst (reconcile_Deployment r web cm s) \<and>
   fst (snd (reconcile_Deployment (recording r) web cm (s, tr0))) =
     snd (reconcile_Deployment r web cm s)"
  by (simp add: reconcile_Deployment_def Let_def split: prod.splits sum.splits option.splits)

lemma recording_preserves_pass:
  "fst (Reconcile (recording r) req (s, tr0)) = fst (Reconcile r req s) \<and>
   fst (snd (Reconcile (recording r) req (s, tr0))) = snd (Reconcile r req s)"
proof -
  obtain a s1 where gw: "Get_Web r (NamespacedName req) s = (a, s1)"
    by (cases "Get_Web r (NamespacedName req) s")
  show ?thesis
  proof (cases a)
    case (Inl e)
    with gw show ?thesis
      by (simp add: Reconcile_def)
  next
    case (Inr web)
    let ?tr = "tr0 @ [GetWeb (NamespacedName req) (Inr web)]"
    obtain x s2 where plain: "reconcile_ConfigMap r web s1 = (x, s2)"
      by (cases "reconcile_ConfigMap r web s1")
    obtain t2 where rec: "reconcile_ConfigMap (recording r) web (s1, ?tr) = (x, (s2, t2))"
      using recording_ConfigMap_block [of r web s1 ?tr] plain
      by (cases "reconcile_ConfigMap (recording r) web (s1, ?tr)") auto
    show ?thesis
    proof (cases x)
      case (Inl ret)
      with gw Inr plain rec show ?thesis
        by (simp add: Reconcile_def)
    next
      case (Inr cm)
      with gw \<open>a = Inr web\<close> plain rec recording_Deployment_block [of r web cm s2 t2]
      show ?thesis
        by (simp add: Reconcile_def)
    qed
  qed
qed

text \<open>
  Every pass is one of twenty-three runs: the fetch of the Web fails or finds nothing;
  the content-holder block returns early in one of three ways; or it falls through in
  one of three ways (found, created, conflict on create) and the workload block ends in
  one of six.
\<close>

lemma pass_cases [consumes 1, case_names Web_absent Web_failed ConfigMap_fetch_failed ConfigMap_link_failed ConfigMap_create_failed found_found found_fetch_failed found_link_failed found_create_failed found_created found_conflict created_found created_fetch_failed created_link_failed created_create_failed created_created created_conflict conflict_found conflict_fetch_failed conflict_link_failed conflict_create_failed conflict_created conflict_conflict]:
  assumes "Reconcile (recording r) req (s, []) = ((res, err), (s', tr))"
  obtains
    "res = Result_zero" "err = None"
      "tr = [GetWeb (NamespacedName req) (Inl NotFound)]"
  | e where "e \<noteq> NotFound" "res = Result_zero" "err = Some e"
      "tr = [GetWeb (NamespacedName req) (Inl e)]"
  | web e where "e \<noteq> NotFound" "res = Result_zero" "err = Some e"
      "tr = [GetWeb (NamespacedName req) (Inr web),
             GetConfigMap (cmKey web) (Inl e)]"
  | web e where "res = Result_zero" "err = Some e"
      "tr = [GetWeb (NamespacedName req) (Inr web),
             GetConfigMap (cmKey web) (Inl NotFound),
             SetOwner web (ObjectMeta.truncate (new_ConfigMap web)) (Inl e)]"
  | web refs e where "e \<noteq> AlreadyExists" "res = Result_zero" "err = Some e"
      "tr = [GetWeb (NamespacedName req) (Inr web),
             GetConfigMap (cmKey web) (Inl NotFound),
             SetOwner web (ObjectMeta.truncate (new_ConfigMap web)) (Inr refs),
             CreateConfigMap ((new_ConfigMap web)\<lparr>OwnerReferences := refs\<rparr>) (Some e)]"
  | web cm dep where "res = Result_zero" "err = None"
      "tr = [GetWeb (NamespacedName req) (Inr web),
             GetConfigMap (cmKey web) (Inr cm),
             GetDeployment (depKey web) (Inr dep)]"
  | web cm e where "e \<noteq> NotFound" "res = Result_zero" "err = Some e"
      "tr = [GetWeb (NamespacedName req) (Inr web),
             GetConfigMap (cmKey web) (Inr cm),
             GetDeployment (depKey web) (Inl e)]"
  | web cm e where "res = Result_zero" "err = Some e"
      "tr = [GetWeb (NamespacedName req) (Inr web),
             GetConfigMap (cmKey web) (Inr cm),
             GetDeployment (depKey web) (Inl NotFound),
             SetOwner web (ObjectMeta.truncate (new_Deployment web cm)) (Inl e)]"
  | web cm refs' e where "e \<noteq> AlreadyExists" "res = Result_zero" "err = Some e"
      "tr = [GetWeb (NamespacedName req) (Inr web),
             GetConfigMap (cmKey web) (Inr cm),
             GetDeployment (depKey web) (Inl NotFound),
             SetOwner web (ObjectMeta.truncate (new_Deployment web cm)) (Inr refs'),
             CreateDeployment ((new_Deployment web cm)\<lparr>OwnerReferences := refs'\<rparr>) (Some e)]"
  | web cm refs' where "res = Result_zero" "err = None"
      "tr = [GetWeb (NamespacedName req) (Inr web),
             GetConfigMap (cmKey web) (Inr cm),
             GetDeployment (depKey web) (Inl NotFound),
             SetOwner web (ObjectMeta.truncate (new_Deployment web cm)) (Inr refs'),
             CreateDeployment ((new_Deployment web cm)\<lparr>OwnerReferences := refs'\<rparr>) None]"
  | web cm refs' where "res = Result_zero" "err = None"
      "tr = [GetWeb (NamespacedName req) (Inr web),
             GetConfigMap (cmKey web) (Inr cm),
             GetDeployment (depKey web) (Inl NotFound),
             SetOwner web (ObjectMeta.truncate (new_Deployment web cm)) (Inr refs'),
             CreateDeployment ((new_Deployment web cm)\<lparr>OwnerReferences := refs'\<rparr>) (Some AlreadyExists)]"
  | web refs dep where "res = Result_zero" "err = None"
      "tr = [GetWeb (NamespacedName req) (Inr web),
             GetConfigMap (cmKey web) (Inl NotFound),
             SetOwner web (ObjectMeta.truncate (new_ConfigMap web)) (Inr refs),
             CreateConfigMap ((new_ConfigMap web)\<lparr>OwnerReferences := refs\<rparr>) None,
             GetDeployment (depKey web) (Inr dep)]"
  | web refs e where "e \<noteq> NotFound" "res = Result_zero" "err = Some e"
      "tr = [GetWeb (NamespacedName req) (Inr web),
             GetConfigMap (cmKey web) (Inl NotFound),
             SetOwner web (ObjectMeta.truncate (new_ConfigMap web)) (Inr refs),
             CreateConfigMap ((new_ConfigMap web)\<lparr>OwnerReferences := refs\<rparr>) None,
             GetDeployment (depKey web) (Inl e)]"
  | web refs e where "res = Result_zero" "err = Some e"
      "tr = [GetWeb (NamespacedName req) (Inr web),
             GetConfigMap (cmKey web) (Inl NotFound),
             SetOwner web (ObjectMeta.truncate (new_ConfigMap web)) (Inr refs),
             CreateConfigMap ((new_ConfigMap web)\<lparr>OwnerReferences := refs\<rparr>) None,
             GetDeployment (depKey web) (Inl NotFound),
             SetOwner web (ObjectMeta.truncate (new_Deployment web ((new_ConfigMap web)\<lparr>OwnerReferences := refs\<rparr>))) (Inl e)]"
  | web refs refs' e where "e \<noteq> AlreadyExists" "res = Result_zero" "err = Some e"
      "tr = [GetWeb (NamespacedName req) (Inr web),
             GetConfigMap (cmKey web) (Inl NotFound),
             SetOwner web (ObjectMeta.truncate (new_ConfigMap web)) (Inr refs),
             CreateConfigMap ((new_ConfigMap web)\<lparr>OwnerReferences := refs\<rparr>) None,
             GetDeployment (depKey web) (Inl NotFound),
             SetOwner web (ObjectMeta.truncate (new_Deployment web ((new_ConfigMap web)\<lparr>OwnerReferences := refs\<rparr>))) (Inr refs'),
             CreateDeployment ((new_Deployment web ((new_ConfigMap web)\<lparr>OwnerReferences := refs\<rparr>))\<lparr>OwnerReferences := refs'\<rparr>) (Some e)]"
  | web refs refs' where "res = Result_zero" "err = None"
      "tr = [GetWeb (NamespacedName req) (Inr web),
             GetConfigMap (cmKey web) (Inl NotFound),
             SetOwner web (ObjectMeta.truncate (new_ConfigMap web)) (Inr refs),
             CreateConfigMap ((new_ConfigMap web)\<lparr>OwnerReferences := refs\<rparr>) None,
             GetDeployment (depKey web) (Inl NotFound),
             SetOwner web (ObjectMeta.truncate (new_Deployment web ((new_ConfigMap web)\<lparr>OwnerReferences := refs\<rparr>))) (Inr refs'),
             CreateDeployment ((new_Deployment web ((new_ConfigMap web)\<lparr>OwnerReferences := refs\<rparr>))\<lparr>OwnerReferences := refs'\<rparr>) None]"
  | web refs refs' where "res = Result_zero" "err = None"
      "tr = [GetWeb (NamespacedName req) (Inr web),
             GetConfigMap (cmKey web) (Inl NotFound),
             SetOwner web (ObjectMeta.truncate (new_ConfigMap web)) (Inr refs),
             CreateConfigMap ((new_ConfigMap web)\<lparr>OwnerReferences := refs\<rparr>) None,
             GetDeployment (depKey web) (Inl NotFound),
             SetOwner web (ObjectMeta.truncate (new_Deployment web ((new_ConfigMap web)\<lparr>OwnerReferences := refs\<rparr>))) (Inr refs'),
             CreateDeployment ((new_Deployment web ((new_ConfigMap web)\<lparr>OwnerReferences := refs\<rparr>))\<lparr>OwnerReferences := refs'\<rparr>) (Some AlreadyExists)]"
  | web refs dep where "res = Result_zero" "err = None"
      "tr = [GetWeb (NamespacedName req) (Inr web),
             GetConfigMap (cmKey web) (Inl NotFound),
             SetOwner web (ObjectMeta.truncate (new_ConfigMap web)) (Inr refs),
             CreateConfigMap ((new_ConfigMap web)\<lparr>OwnerReferences := refs\<rparr>) (Some AlreadyExists),
             GetDeployment (depKey web) (Inr dep)]"
  | web refs e where "e \<noteq> NotFound" "res = Result_zero" "err = Some e"
      "tr = [GetWeb (NamespacedName req) (Inr web),
             GetConfigMap (cmKey web) (Inl NotFound),
             SetOwner web (ObjectMeta.truncate (new_ConfigMap web)) (Inr refs),
             CreateConfigMap ((new_ConfigMap web)\<lparr>OwnerReferences := refs\<rparr>) (Some AlreadyExists),
             GetDeployment (depKey web) (Inl e)]"
  | web refs e where "res = Result_zero" "err = Some e"
      "tr = [GetWeb (NamespacedName req) (Inr web),
             GetConfigMap (cmKey web) (Inl NotFound),
             SetOwner web (ObjectMeta.truncate (new_ConfigMap web)) (Inr refs),
             CreateConfigMap ((new_ConfigMap web)\<lparr>OwnerReferences := refs\<rparr>) (Some AlreadyExists),
             GetDeployment (depKey web) (Inl NotFound),
             SetOwner web (ObjectMeta.truncate (new_Deployment web ((new_ConfigMap web)\<lparr>OwnerReferences := refs\<rparr>))) (Inl e)]"
  | web refs refs' e where "e \<noteq> AlreadyExists" "res = Result_zero" "err = Some e"
      "tr = [GetWeb (NamespacedName req) (Inr web),
             GetConfigMap (cmKey web) (Inl NotFound),
             SetOwner web (ObjectMeta.truncate (new_ConfigMap web)) (Inr refs),
             CreateConfigMap ((new_ConfigMap web)\<lparr>OwnerReferences := refs\<rparr>) (Some AlreadyExists),
             GetDeployment (depKey web) (Inl NotFound),
             SetOwner web (ObjectMeta.truncate (new_Deployment web ((new_ConfigMap web)\<lparr>OwnerReferences := refs\<rparr>))) (Inr refs'),
             CreateDeployment ((new_Deployment web ((new_ConfigMap web)\<lparr>OwnerReferences := refs\<rparr>))\<lparr>OwnerReferences := refs'\<rparr>) (Some e)]"
  | web refs refs' where "res = Result_zero" "err = None"
      "tr = [GetWeb (NamespacedName req) (Inr web),
             GetConfigMap (cmKey web) (Inl NotFound),
             SetOwner web (ObjectMeta.truncate (new_ConfigMap web)) (Inr refs),
             CreateConfigMap ((new_ConfigMap web)\<lparr>OwnerReferences := refs\<rparr>) (Some AlreadyExists),
             GetDeployment (depKey web) (Inl NotFound),
             SetOwner web (ObjectMeta.truncate (new_Deployment web ((new_ConfigMap web)\<lparr>OwnerReferences := refs\<rparr>))) (Inr refs'),
             CreateDeployment ((new_Deployment web ((new_ConfigMap web)\<lparr>OwnerReferences := refs\<rparr>))\<lparr>OwnerReferences := refs'\<rparr>) None]"
  | web refs refs' where "res = Result_zero" "err = None"
      "tr = [GetWeb (NamespacedName req) (Inr web),
             GetConfigMap (cmKey web) (Inl NotFound),
             SetOwner web (ObjectMeta.truncate (new_ConfigMap web)) (Inr refs),
             CreateConfigMap ((new_ConfigMap web)\<lparr>OwnerReferences := refs\<rparr>) (Some AlreadyExists),
             GetDeployment (depKey web) (Inl NotFound),
             SetOwner web (ObjectMeta.truncate (new_Deployment web ((new_ConfigMap web)\<lparr>OwnerReferences := refs\<rparr>))) (Inr refs'),
             CreateDeployment ((new_Deployment web ((new_ConfigMap web)\<lparr>OwnerReferences := refs\<rparr>))\<lparr>OwnerReferences := refs'\<rparr>) (Some AlreadyExists)]"
proof -
  obtain a s1 where gw: "Get_Web r (NamespacedName req) s = (a, s1)"
    by (cases "Get_Web r (NamespacedName req) s")
  show thesis
  proof (cases a)
    case (Inl e)
    with assms gw show thesis
      by (cases "e = NotFound")
         (auto simp: Reconcile_def IsNotFound_def IgnoreNotFound_def intro: that(1,2))
  next
    case (Inr web)
    obtain x s2 t2 where
      cmb: "reconcile_ConfigMap (recording r) web (s1, [GetWeb (NamespacedName req) (Inr web)]) = (x, (s2, t2))"
      by (metis prod_cases3)
    show thesis
    proof (cases x)
      case (Inl ret)
      with assms gw Inr cmb have "ret = (res, err)" "s2 = s'" "t2 = tr"
        by (simp_all add: Reconcile_def)
      with cmb Inl show thesis
        by (cases rule: ConfigMap_block_cases) (auto intro: that(3,4,5))
    next
      case (Inr cm)
      with assms gw \<open>a = Inr web\<close> cmb
      have depb: "reconcile_Deployment (recording r) web cm (s2, t2) = ((res, err), (s', tr))"
        by (simp add: Reconcile_def)
      from cmb Inr show thesis
      proof (cases rule: ConfigMap_block_cases)
        case (found cm')
        with depb Inr show thesis
          by (cases rule: Deployment_block_cases) (auto intro: that(6,7,8,9,10,11))
      next
        case (created refs)
        with depb Inr show thesis
          by (cases rule: Deployment_block_cases) (auto intro: that(12,13,14,15,16,17))
      next
        case (conflict refs)
        with depb Inr show thesis
          by (cases rule: Deployment_block_cases) (auto intro: that(18,19,20,21,22,23))
      qed simp_all
    qed
  qed
qed


text \<open>Facts about the two literals.\<close>

lemma new_ConfigMap_meta [simp]:
  "Name (new_ConfigMap web) = Name web @ ''-cm''"
  "Namespace (new_ConfigMap web) = Namespace web"
  "OwnerReferences (new_ConfigMap web) = []"
  "Data (new_ConfigMap web) = [''index.html'' \<mapsto> HtmlContent (Spec web)]"
  by (simp_all add: new_ConfigMap_def)

lemma new_Deployment_meta [simp]:
  "Name (new_Deployment web cm) = Name web @ ''deployment''"
  "Namespace (new_Deployment web cm) = Namespace web"
  "OwnerReferences (new_Deployment web cm) = []"
  by (simp_all add: new_Deployment_def)

lemma new_Deployment_Replicas: "Replicas (Deployment_Spec (new_Deployment web cm)) = None"
  by (simp add: new_Deployment_def)

lemma new_Deployment_Size:
  "new_Deployment (web\<lparr>Spec := (Spec web)\<lparr>Size := n\<rparr>\<rparr>) cm = new_Deployment web cm"
  by (simp add: new_Deployment_def)

lemma new_Deployment_Volumes:
  "Volumes (Template_Spec (Template (Deployment_Spec (new_Deployment web cm)))) =
     [\<lparr>Volume_Name = ''html'',
       Volume_VolumeSource =
         \<lparr>VolumeSource_ConfigMap = Some \<lparr>LocalObjectReference_Name = Name cm\<rparr>\<rparr>\<rparr>]"
  by (simp add: new_Deployment_def)

lemma pass_shape:
  assumes "Reconcile (recording r) req (s, []) = ((res, err), (s', tr))"
  shows "tr \<noteq> []" and "\<forall>ev \<in> set (butlast tr). failure ev = None"
    and "err = failure (last tr)" and "res = Result_zero"
  using assms by (cases rule: pass_cases; simp)+

lemma failed_call_is_last:
  assumes run: "Reconcile (recording r) req (s, []) = ((res, err), (s', tr))"
    and i: "i < length tr" and f: "failure (tr ! i) = Some e"
  shows "err = Some e \<and> Suc i = length tr"
proof -
  have "\<not> i < length tr - 1"
  proof
    assume "i < length tr - 1"
    then have "butlast tr ! i = tr ! i" and "i < length (butlast tr)"
      by (simp_all add: nth_butlast)
    then have "tr ! i \<in> set (butlast tr)"
      by (metis nth_mem)
    with pass_shape(2) [OF run] f show False by simp
  qed
  with i have last: "Suc i = length tr" by simp
  with pass_shape(1) [OF run] have "last tr = tr ! i"
    by (metis diff_Suc_1 last_conv_nth)
  with pass_shape(3) [OF run] f last show ?thesis by simp
qed

section \<open>The scenario, run\<close>

lemma site_new_ConfigMap: "(new_ConfigMap site)\<lparr>OwnerReferences := [site_owner]\<rparr> = site_cm"
  by (simp add: new_ConfigMap_def site_def site_cm_def)

lemma site_new_Deployment:
  "(new_Deployment site site_cm)\<lparr>OwnerReferences := [site_owner]\<rparr> = site_deployment"
  by (simp add: new_Deployment_def site_def site_cm_def site_deployment_def)

lemma site_first_pass:
  "Reconcile (recording (store (Some web_gvk) healthy)) site_request (site_only, []) =
     ((Result_zero, None), (site_converged, first_pass_trace))"
  by (simp add: pass_defs store_defs site_defs first_pass_trace_def new_ConfigMap_def
      new_Deployment_def ObjectMeta.truncate_def)

lemma site_outage_pass:
  "Reconcile (recording (store (Some web_gvk) outage)) site_request (site_only, []) =
     ((Result_zero, Some (Failure ''store outage'')), (site_partial, outage_trace))"
  by (simp add: pass_defs store_defs site_defs outage_trace_def outage_def new_ConfigMap_def
      new_Deployment_def ObjectMeta.truncate_def)

lemma site_race_pass:
  "Reconcile (recording (store (Some web_gvk) stale_cache)) site_request (site_partial, []) =
     ((Result_zero, None), (site_converged, race_trace))"
  by (simp add: pass_defs store_defs site_defs race_trace_def stale_cache_def new_ConfigMap_def
      new_Deployment_def ObjectMeta.truncate_def)

lemma site_unregistered_pass:
  "Reconcile (recording (store None healthy)) site_request (site_only, []) =
     ((Result_zero, Some (Failure ''no kind is registered for the type v1alpha1.Web'')),
      (site_only, unregistered_trace))"
  by (simp add: pass_defs store_defs site_defs unregistered_trace_def)

lemma site_race_outage_pass:
  "Reconcile (recording (store (Some web_gvk) stale_cache_and_outage)) site_request
     (site_partial, []) =
     ((Result_zero, Some (Failure ''store outage'')), (site_partial, race_outage_trace))"
  by (simp add: pass_defs store_defs site_defs race_outage_trace_def stale_cache_and_outage_def
      outage_def new_ConfigMap_def new_Deployment_def ObjectMeta.truncate_def)

lemma site_Deployment_race_pass:
  "Reconcile (recording (store (Some web_gvk) stale_Deployment_cache)) site_request
     (site_converged, []) =
     ((Result_zero, None), (site_converged, Deployment_race_trace))"
  by (simp add: pass_defs store_defs site_defs Deployment_race_trace_def
      stale_Deployment_cache_def new_Deployment_def ObjectMeta.truncate_def)

section \<open>The claims\<close>

text \<open>
  C1. For the Web \<^verbatim>\<open>site\<close> of the scenario, with no dependents in the cluster, one pass
  succeeds and creates exactly two objects: the content holder \<^verbatim>\<open>site-cm\<close> in \<^verbatim>\<open>ns\<close>, whose
  data is the single entry of \<^verbatim>\<open>index.html\<close> with the content of the Web, and the
  workload \<^verbatim>\<open>sitedeployment\<close> in \<^verbatim>\<open>ns\<close>, with one container of image \<^verbatim>\<open>nginx:1.25\<close> that
  mounts at \<^verbatim>\<open>/app\<close> the volume whose source is \<^verbatim>\<open>site-cm\<close>.
\<close>

theorem site_scenario_creates_dependents:
  "(case Reconcile (recording (store (Some web_gvk) healthy)) site_request (site_only, []) of
      (out, (c, tr)) \<Rightarrow>
        out = (Result_zero, None) \<and>
        filter is_write tr = [CreateConfigMap site_cm None, CreateDeployment site_deployment None] \<and>
        webs c = webs site_only \<and>
        configMaps c = [\<lparr>Key_Namespace = ''ns'', Key_Name = ''site-cm''\<rparr> \<mapsto> site_cm] \<and>
        deployments c =
          [\<lparr>Key_Namespace = ''ns'', Key_Name = ''sitedeployment''\<rparr> \<mapsto> site_deployment]) \<and>
   Name site_cm = ''site-cm'' \<and> Namespace site_cm = ''ns'' \<and>
   Data site_cm = [''index.html'' \<mapsto> ''<h1>hi</h1>''] \<and>
   Name site_deployment = ''sitedeployment'' \<and> Namespace site_deployment = ''ns'' \<and>
   map Container_Image (Containers (Template_Spec (Template (Deployment_Spec site_deployment)))) =
     [''nginx:1.25''] \<and>
   map VolumeMounts (Containers (Template_Spec (Template (Deployment_Spec site_deployment)))) =
     [[\<lparr>VolumeMount_Name = ''html'', MountPath = ''/app''\<rparr>]] \<and>
   Volumes (Template_Spec (Template (Deployment_Spec site_deployment))) =
     [\<lparr>Volume_Name = ''html'',
       Volume_VolumeSource =
         \<lparr>VolumeSource_ConfigMap = Some \<lparr>LocalObjectReference_Name = ''site-cm''\<rparr>\<rparr>\<rparr>]"
  by (simp add: site_first_pass first_pass_trace_def)
     (simp add: site_converged_def site_partial_def site_only_def site_cm_def
        site_deployment_def)

text \<open>
  C2. When the fetch of the Web answers NotFound, the pass returns the empty result with
  no error, and the fetch is its only call: it makes no write.
\<close>

theorem absent_Web_is_noop:
  assumes "Get_Web r (NamespacedName req) s = (Inl NotFound, s')"
  shows "Reconcile r req s = ((Result_zero, None), s') \<and>
         Reconcile (recording r) req (s, []) =
           ((Result_zero, None), (s', [GetWeb (NamespacedName req) (Inl NotFound)]))"
  using assms by (simp add: Reconcile_def IsNotFound_def)

theorem absent_Web_is_noop_witness:
  "Get_Web (store (Some web_gvk) healthy) (NamespacedName site_request) site_deleted =
     (Inl NotFound, site_deleted) \<and>
   Reconcile (store (Some web_gvk) healthy) site_request site_deleted =
     ((Result_zero, None), site_deleted) \<and>
   Reconcile (recording (store (Some web_gvk) healthy)) site_request (site_deleted, []) =
     ((Result_zero, None),
      (site_deleted, [GetWeb \<lparr>Key_Namespace = ''ns'', Key_Name = ''site''\<rparr> (Inl NotFound)]))"
proof -
  have h: "Get_Web (store (Some web_gvk) healthy) (NamespacedName site_request) site_deleted =
     (Inl NotFound, site_deleted)"
    by (simp add: store_defs site_defs)
  from absent_Web_is_noop [OF h] h show ?thesis
    by (simp add: site_request_def)
qed

text \<open>
  C3. In a cluster that holds the Web and both of its dependents, two passes in
  succession over a store without injected failures both return the empty result with
  no error, neither makes a write, and the cluster is the same after each.
\<close>

theorem Reconcile_idempotent:
  assumes "webs c (NamespacedName req) = Some web"
    and "configMaps c (cmKey web) = Some cm"
    and "deployments c (depKey web) = Some dep"
  shows "(case Reconcile (recording (store sch healthy)) req (c, []) of
           (out1, (c1, tr1)) \<Rightarrow>
             (case Reconcile (recording (store sch healthy)) req (c1, []) of
                (out2, (c2, tr2)) \<Rightarrow>
                  out1 = (Result_zero, None) \<and> out2 = out1 \<and>
                  filter is_write tr1 = [] \<and> filter is_write tr2 = [] \<and>
                  c1 = c \<and> c2 = c))"
  using assms by (simp add: pass_defs store_defs)

theorem Reconcile_idempotent_witness:
  "webs site_converged (NamespacedName site_request) = Some site \<and>
   configMaps site_converged (cmKey site) = Some site_cm \<and>
   deployments site_converged (depKey site) = Some site_deployment \<and>
   (case Reconcile (recording (store (Some web_gvk) healthy)) site_request (site_converged, []) of
      (out1, (c1, tr1)) \<Rightarrow>
        (case Reconcile (recording (store (Some web_gvk) healthy)) site_request (c1, []) of
           (out2, (c2, tr2)) \<Rightarrow>
             out1 = (Result_zero, None) \<and> out2 = out1 \<and>
             filter is_write tr1 = [] \<and> filter is_write tr2 = [] \<and>
             c1 = site_converged \<and> c2 = site_converged))"
proof -
  have h1: "webs site_converged (NamespacedName site_request) = Some site"
    by (simp add: site_defs)
  have h2: "configMaps site_converged (cmKey site) = Some site_cm"
    by (simp add: site_defs)
  have h3: "deployments site_converged (depKey site) = Some site_deployment"
    by (simp add: site_defs)
  from Reconcile_idempotent [OF h1 h2 h3, of "Some web_gvk"] h1 h2 h3 show ?thesis
    by blast
qed

text \<open>
  C4. In every successful pass that finds both dependents absent, whatever the client,
  the calls are these seven in this order: the create of the content holder comes
  before the fetch and the create of the workload, the content holder is named after
  the Web with the suffix \<^verbatim>\<open>-cm\<close>, and the one volume of the workload has exactly that
  name as its source.
\<close>

theorem ConfigMap_created_before_Deployment:
  assumes "Reconcile (recording r) req (s, []) = ((res, None), (s', tr))"
    and "GetConfigMap k1 (Inl NotFound) \<in> set tr"
    and "GetDeployment k2 (Inl NotFound) \<in> set tr"
  shows "\<exists>web refs rc refs' rd cm dep.
           cm = (new_ConfigMap web)\<lparr>OwnerReferences := refs\<rparr> \<and>
           dep = (new_Deployment web cm)\<lparr>OwnerReferences := refs'\<rparr> \<and>
           tr = [GetWeb (NamespacedName req) (Inr web),
                 GetConfigMap k1 (Inl NotFound),
                 SetOwner web (ObjectMeta.truncate (new_ConfigMap web)) (Inr refs),
                 CreateConfigMap cm rc,
                 GetDeployment k2 (Inl NotFound),
                 SetOwner web (ObjectMeta.truncate (new_Deployment web cm)) (Inr refs'),
                 CreateDeployment dep rd] \<and>
           (rc = None \<or> rc = Some AlreadyExists) \<and> (rd = None \<or> rd = Some AlreadyExists) \<and>
           Name cm = Name web @ ''-cm'' \<and> Namespace cm = Namespace web \<and>
           Volumes (Template_Spec (Template (Deployment_Spec dep))) =
             [\<lparr>Volume_Name = ''html'',
               Volume_VolumeSource =
                 \<lparr>VolumeSource_ConfigMap =
                    Some \<lparr>LocalObjectReference_Name = Name web @ ''-cm''\<rparr>\<rparr>\<rparr>]"
  using assms
  by (cases rule: pass_cases) (simp_all add: new_Deployment_Volumes)

theorem ConfigMap_created_before_Deployment_witness:
  "Reconcile (recording (store (Some web_gvk) healthy)) site_request (site_only, []) =
     ((Result_zero, None), (site_converged, first_pass_trace)) \<and>
   GetConfigMap \<lparr>Key_Namespace = ''ns'', Key_Name = ''site-cm''\<rparr> (Inl NotFound)
     \<in> set first_pass_trace \<and>
   GetDeployment \<lparr>Key_Namespace = ''ns'', Key_Name = ''sitedeployment''\<rparr> (Inl NotFound)
     \<in> set first_pass_trace \<and>
   (\<exists>web refs rc refs' rd cm dep.
      cm = (new_ConfigMap web)\<lparr>OwnerReferences := refs\<rparr> \<and>
      dep = (new_Deployment web cm)\<lparr>OwnerReferences := refs'\<rparr> \<and>
      first_pass_trace =
        [GetWeb (NamespacedName site_request) (Inr web),
         GetConfigMap \<lparr>Key_Namespace = ''ns'', Key_Name = ''site-cm''\<rparr> (Inl NotFound),
         SetOwner web (ObjectMeta.truncate (new_ConfigMap web)) (Inr refs),
         CreateConfigMap cm rc,
         GetDeployment \<lparr>Key_Namespace = ''ns'', Key_Name = ''sitedeployment''\<rparr> (Inl NotFound),
         SetOwner web (ObjectMeta.truncate (new_Deployment web cm)) (Inr refs'),
         CreateDeployment dep rd] \<and>
      (rc = None \<or> rc = Some AlreadyExists) \<and> (rd = None \<or> rd = Some AlreadyExists) \<and>
      Name cm = Name web @ ''-cm'' \<and> Namespace cm = Namespace web \<and>
      Volumes (Template_Spec (Template (Deployment_Spec dep))) =
        [\<lparr>Volume_Name = ''html'',
          Volume_VolumeSource =
            \<lparr>VolumeSource_ConfigMap =
               Some \<lparr>LocalObjectReference_Name = Name web @ ''-cm''\<rparr>\<rparr>\<rparr>])"
proof -
  have h1: "GetConfigMap \<lparr>Key_Namespace = ''ns'', Key_Name = ''site-cm''\<rparr> (Inl NotFound)
      \<in> set first_pass_trace"
    by (simp add: first_pass_trace_def)
  have h2: "GetDeployment \<lparr>Key_Namespace = ''ns'', Key_Name = ''sitedeployment''\<rparr> (Inl NotFound)
      \<in> set first_pass_trace"
    by (simp add: first_pass_trace_def)
  from ConfigMap_created_before_Deployment [OF site_first_pass h1 h2] site_first_pass h1 h2
  show ?thesis by blast
qed

text \<open>
  C5. In every pass, whatever the client, a call that fails (a fetch with an error
  other than NotFound, an ownership link with any error, a create with an error other
  than AlreadyExists) is the last call of the pass, and its error is the error the pass
  returns. If the failed call is not a call of the workload step, the pass has made no
  call of the workload step.
\<close>

theorem failure_aborts_pass:
  assumes "Reconcile (recording r) req (s, []) = ((res, err), (s', tr))"
    and "i < length tr" and "failure (tr ! i) = Some e"
  shows "res = Result_zero \<and> err = Some e \<and> Suc i = length tr \<and>
         (\<not> workload_call (tr ! i) \<longrightarrow> (\<forall>ev \<in> set tr. \<not> workload_call ev))"
proof -
  have "\<not> workload_call (last tr) \<longrightarrow> (\<forall>ev \<in> set tr. \<not> workload_call ev)"
    using assms(1) by (cases rule: pass_cases) (simp_all add: ObjectMeta.truncate_def)
  moreover have "err = Some e \<and> Suc i = length tr"
    using assms by (rule failed_call_is_last)
  moreover from this have "last tr = tr ! i"
    by (metis diff_Suc_1 last_conv_nth length_0_conv nat.distinct(1))
  ultimately show ?thesis
    using pass_shape(4) [OF assms(1)] by simp
qed

theorem failure_aborts_pass_witness:
  "Reconcile (recording (store None healthy)) site_request (site_only, []) =
     ((Result_zero, Some (Failure ''no kind is registered for the type v1alpha1.Web'')),
      (site_only, unregistered_trace)) \<and>
   2 < length unregistered_trace \<and>
   failure (unregistered_trace ! 2) =
     Some (Failure ''no kind is registered for the type v1alpha1.Web'') \<and>
   Suc 2 = length unregistered_trace \<and>
   \<not> workload_call (unregistered_trace ! 2) \<and>
   filter workload_call unregistered_trace = [] \<and>
   Reconcile (recording (store (Some web_gvk) outage)) site_request (site_only, []) =
     ((Result_zero, Some (Failure ''store outage'')), (site_partial, outage_trace)) \<and>
   6 < length outage_trace \<and>
   failure (outage_trace ! 6) = Some (Failure ''store outage'') \<and>
   Suc 6 = length outage_trace"
proof -
  have h1: "2 < length unregistered_trace"
    and h2: "failure (unregistered_trace ! 2) =
      Some (Failure ''no kind is registered for the type v1alpha1.Web'')"
    and h3: "\<not> workload_call (unregistered_trace ! 2)"
    by (simp_all add: unregistered_trace_def ObjectMeta.truncate_def site_def)
  have g1: "6 < length outage_trace"
    and g2: "failure (outage_trace ! 6) = Some (Failure ''store outage'')"
    by (simp_all add: outage_trace_def)
  from failure_aborts_pass [OF site_unregistered_pass h1 h2] h3
  have a: "Suc 2 = length unregistered_trace"
    and "\<forall>ev \<in> set unregistered_trace. \<not> workload_call ev"
    by blast+
  then have b: "filter workload_call unregistered_trace = []"
    by (simp add: filter_empty_conv)
  from failure_aborts_pass [OF site_outage_pass g1 g2]
  have c: "Suc 6 = length outage_trace"
    by blast
  from a b c site_unregistered_pass site_outage_pass h1 h2 h3 g1 g2
  show ?thesis by blast
qed

text \<open>
  C6. In every pass, whatever the client, in which a create answers AlreadyExists: if
  the pass returns an error, it is the error of a later call that failed, and if no
  call of the pass failed the pass returns no error; after such an answer to the create
  of the content holder the pass goes on to fetch the workload; after such an answer
  to the create of the workload the pass returns no error.
\<close>

theorem AlreadyExists_is_swallowed:
  assumes run: "Reconcile (recording r) req (s, []) = ((res, err), (s', tr))"
    and i: "i < length tr"
    and ev: "tr ! i = CreateConfigMap cm (Some AlreadyExists) \<or>
             tr ! i = CreateDeployment dep (Some AlreadyExists)"
  shows "((\<forall>j<length tr. failure (tr ! j) = None) \<longrightarrow> err = None) \<and>
         (\<forall>e. err = Some e \<longrightarrow> (\<exists>j. i < j \<and> j < length tr \<and> failure (tr ! j) = Some e)) \<and>
         (tr ! i = CreateConfigMap cm (Some AlreadyExists) \<longrightarrow>
            Suc i < length tr \<and> (\<exists>k a. tr ! Suc i = GetDeployment k a)) \<and>
         (tr ! i = CreateDeployment dep (Some AlreadyExists) \<longrightarrow> err = None)"
proof -
  have last: "last tr = tr ! (length tr - 1)" and len: "length tr - 1 < length tr"
    using pass_shape(1) [OF run] by (simp_all add: last_conv_nth)
  have none: "failure (tr ! i) = None"
    using ev by auto
  have a: "(\<forall>j<length tr. failure (tr ! j) = None) \<longrightarrow> err = None"
    using pass_shape(3) [OF run] last len by simp
  have b: "\<exists>j. i < j \<and> j < length tr \<and> failure (tr ! j) = Some e" if "err = Some e" for e
  proof -
    from that pass_shape(3) [OF run] last have f: "failure (tr ! (length tr - 1)) = Some e"
      by simp
    with none have "i \<noteq> length tr - 1" by auto
    with i have "i < length tr - 1" by simp
    with f len show ?thesis by blast
  qed
  have c: "Suc i < length tr \<and> (\<exists>k a. tr ! Suc i = GetDeployment k a)"
    if "tr ! i = CreateConfigMap cm (Some AlreadyExists)"
    using run i that by (cases rule: pass_cases) (auto simp: nth_Cons' split: if_splits)
  have d: "err = None" if "tr ! i = CreateDeployment dep (Some AlreadyExists)"
    using run i that by (cases rule: pass_cases) (auto simp: nth_Cons' split: if_splits)
  from a b c d show ?thesis by blast
qed

theorem AlreadyExists_is_swallowed_witness:
  "Reconcile (recording (store (Some web_gvk) stale_cache)) site_request (site_partial, []) =
     ((Result_zero, None), (site_converged, race_trace)) \<and>
   3 < length race_trace \<and>
   race_trace ! 3 = CreateConfigMap site_cm (Some AlreadyExists) \<and>
   map failure race_trace = [None, None, None, None, None, None, None] \<and>
   Suc 3 < length race_trace \<and>
   (\<exists>k a. race_trace ! Suc 3 = GetDeployment k a) \<and>
   Reconcile (recording (store (Some web_gvk) stale_cache_and_outage)) site_request
     (site_partial, []) =
     ((Result_zero, Some (Failure ''store outage'')), (site_partial, race_outage_trace)) \<and>
   3 < length race_outage_trace \<and>
   race_outage_trace ! 3 = CreateConfigMap site_cm (Some AlreadyExists) \<and>
   (\<exists>j. 3 < j \<and> j < length race_outage_trace \<and>
        failure (race_outage_trace ! j) = Some (Failure ''store outage'')) \<and>
   Reconcile (recording (store (Some web_gvk) stale_Deployment_cache)) site_request
     (site_converged, []) =
     ((Result_zero, None), (site_converged, Deployment_race_trace)) \<and>
   4 < length Deployment_race_trace \<and>
   Deployment_race_trace ! 4 = CreateDeployment site_deployment (Some AlreadyExists)"
proof -
  have h1: "3 < length race_trace"
    and h2: "race_trace ! 3 = CreateConfigMap site_cm (Some AlreadyExists)"
    and h3: "map failure race_trace = [None, None, None, None, None, None, None]"
    by (simp_all add: race_trace_def)
  have g1: "3 < length race_outage_trace"
    and g2: "race_outage_trace ! 3 = CreateConfigMap site_cm (Some AlreadyExists)"
    by (simp_all add: race_outage_trace_def)
  have f1: "4 < length Deployment_race_trace"
    and f2: "Deployment_race_trace ! 4 = CreateDeployment site_deployment (Some AlreadyExists)"
    by (simp_all add: Deployment_race_trace_def)
  from AlreadyExists_is_swallowed [OF site_race_pass h1, of site_cm site_deployment] h2
  have a: "Suc 3 < length race_trace \<and> (\<exists>k a. race_trace ! Suc 3 = GetDeployment k a)"
    by blast
  from AlreadyExists_is_swallowed [OF site_race_outage_pass g1, of site_cm site_deployment] g2
  have b: "\<exists>j. 3 < j \<and> j < length race_outage_trace \<and>
      failure (race_outage_trace ! j) = Some (Failure ''store outage'')"
    by blast
  note c = AlreadyExists_is_swallowed [OF site_Deployment_race_pass f1, of site_cm site_deployment]
  from a b c site_race_pass site_race_outage_pass site_Deployment_race_pass h1 h2 h3 g1 g2 f1 f2
  show ?thesis by blast
qed

text \<open>
  C7. In every pass, whatever the client: when setting the ownership link fails, that
  call is the last of the pass, so no create follows, and the pass returns its error;
  and every create is immediately preceded by a successful ownership-link call for
  the fetched Web on the object being created, whose owner references are the ones
  that call returned.
\<close>

theorem no_create_without_owner_link:
  assumes run: "Reconcile (recording r) req (s, []) = ((res, err), (s', tr))"
    and i: "i < length tr"
  shows "(\<forall>owner m e. tr ! i = SetOwner owner m (Inl e) \<longrightarrow> err = Some e \<and> Suc i = length tr) \<and>
         (\<forall>cm rc. tr ! i = CreateConfigMap cm rc \<longrightarrow>
            (\<exists>web refs. tr ! 0 = GetWeb (NamespacedName req) (Inr web) \<and> 0 < i \<and>
               tr ! (i - 1) = SetOwner web (ObjectMeta.truncate (new_ConfigMap web)) (Inr refs) \<and>
               cm = (new_ConfigMap web)\<lparr>OwnerReferences := refs\<rparr> \<and>
               OwnerReferences cm = refs)) \<and>
         (\<forall>dep rd. tr ! i = CreateDeployment dep rd \<longrightarrow>
            (\<exists>web cm refs. tr ! 0 = GetWeb (NamespacedName req) (Inr web) \<and> 0 < i \<and>
               tr ! (i - 1) = SetOwner web (ObjectMeta.truncate (new_Deployment web cm)) (Inr refs) \<and>
               dep = (new_Deployment web cm)\<lparr>OwnerReferences := refs\<rparr> \<and>
               OwnerReferences dep = refs))"
proof -
  have a: "err = Some e \<and> Suc i = length tr" if "tr ! i = SetOwner owner m (Inl e)" for owner m e
    using failed_call_is_last [OF run i, of e] that by simp
  have b: "\<exists>web refs. tr ! 0 = GetWeb (NamespacedName req) (Inr web) \<and> 0 < i \<and>
               tr ! (i - 1) = SetOwner web (ObjectMeta.truncate (new_ConfigMap web)) (Inr refs) \<and>
               cm = (new_ConfigMap web)\<lparr>OwnerReferences := refs\<rparr> \<and>
               OwnerReferences cm = refs"
    if "tr ! i = CreateConfigMap cm rc" for cm rc
    using run i that by (cases rule: pass_cases) (auto simp: nth_Cons' split: if_splits)
  have c: "\<exists>web cm refs. tr ! 0 = GetWeb (NamespacedName req) (Inr web) \<and> 0 < i \<and>
               tr ! (i - 1) = SetOwner web (ObjectMeta.truncate (new_Deployment web cm)) (Inr refs) \<and>
               dep = (new_Deployment web cm)\<lparr>OwnerReferences := refs\<rparr> \<and>
               OwnerReferences dep = refs"
    if "tr ! i = CreateDeployment dep rd" for dep rd
    using run i that by (cases rule: pass_cases) (auto simp: nth_Cons' split: if_splits)
  from a b c show ?thesis by blast
qed

theorem no_create_without_owner_link_witness:
  "Reconcile (recording (store None healthy)) site_request (site_only, []) =
     ((Result_zero, Some (Failure ''no kind is registered for the type v1alpha1.Web'')),
      (site_only, unregistered_trace)) \<and>
   2 < length unregistered_trace \<and>
   unregistered_trace ! 2 =
     SetOwner site (ObjectMeta.truncate (new_ConfigMap site))
       (Inl (Failure ''no kind is registered for the type v1alpha1.Web'')) \<and>
   Suc 2 = length unregistered_trace \<and>
   Reconcile (recording (store (Some web_gvk) healthy)) site_request (site_only, []) =
     ((Result_zero, None), (site_converged, first_pass_trace)) \<and>
   6 < length first_pass_trace \<and>
   first_pass_trace ! 6 = CreateDeployment site_deployment None \<and>
   (\<exists>web cm refs. first_pass_trace ! 0 = GetWeb (NamespacedName site_request) (Inr web) \<and>
      first_pass_trace ! (6 - 1) =
        SetOwner web (ObjectMeta.truncate (new_Deployment web cm)) (Inr refs) \<and>
      site_deployment = (new_Deployment web cm)\<lparr>OwnerReferences := refs\<rparr> \<and>
      OwnerReferences site_deployment = refs) \<and>
   OwnerReferences site_deployment = [site_owner] \<and>
   3 < length first_pass_trace \<and>
   first_pass_trace ! 3 = CreateConfigMap site_cm None \<and>
   (\<exists>web refs. first_pass_trace ! 0 = GetWeb (NamespacedName site_request) (Inr web) \<and>
      first_pass_trace ! (3 - 1) =
        SetOwner web (ObjectMeta.truncate (new_ConfigMap web)) (Inr refs) \<and>
      site_cm = (new_ConfigMap web)\<lparr>OwnerReferences := refs\<rparr> \<and>
      OwnerReferences site_cm = refs) \<and>
   OwnerReferences site_cm = [site_owner]"
proof -
  have h1: "2 < length unregistered_trace"
    and h2: "unregistered_trace ! 2 =
      SetOwner site (ObjectMeta.truncate (new_ConfigMap site))
        (Inl (Failure ''no kind is registered for the type v1alpha1.Web''))"
    by (simp_all add: unregistered_trace_def)
  have g1: "6 < length first_pass_trace"
    and g2: "first_pass_trace ! 6 = CreateDeployment site_deployment None"
    by (simp_all add: first_pass_trace_def)
  have g3: "OwnerReferences site_deployment = [site_owner]"
    by (simp add: site_deployment_def)
  have f1: "3 < length first_pass_trace"
    and f2: "first_pass_trace ! 3 = CreateConfigMap site_cm None"
    by (simp_all add: first_pass_trace_def)
  have f3: "OwnerReferences site_cm = [site_owner]"
    by (simp add: site_cm_def)
  from no_create_without_owner_link [OF site_unregistered_pass h1] h2
  have a: "Suc 2 = length unregistered_trace" by blast
  from no_create_without_owner_link [OF site_first_pass g1] g2
  have b: "\<exists>web cm refs. first_pass_trace ! 0 = GetWeb (NamespacedName site_request) (Inr web) \<and>
      first_pass_trace ! (6 - 1) =
        SetOwner web (ObjectMeta.truncate (new_Deployment web cm)) (Inr refs) \<and>
      site_deployment = (new_Deployment web cm)\<lparr>OwnerReferences := refs\<rparr> \<and>
      OwnerReferences site_deployment = refs"
    by blast
  from no_create_without_owner_link [OF site_first_pass f1] f2
  have c: "\<exists>web refs. first_pass_trace ! 0 = GetWeb (NamespacedName site_request) (Inr web) \<and>
      first_pass_trace ! (3 - 1) =
        SetOwner web (ObjectMeta.truncate (new_ConfigMap web)) (Inr refs) \<and>
      site_cm = (new_ConfigMap web)\<lparr>OwnerReferences := refs\<rparr> \<and>
      OwnerReferences site_cm = refs"
    by blast
  from a b c site_unregistered_pass site_first_pass h1 h2 g1 g2 g3 f1 f2 f3 show ?thesis
    by blast
qed

text \<open>
  C8. In every pass, whatever the client, a Deployment passed to create has no replica
  count: it is the Deployment literal of the fetched Web with its owner references
  set, and that literal is the same for every value of the Web's \<^verbatim>\<open>Size\<close>.
\<close>

theorem Replicas_not_propagated:
  assumes "Reconcile (recording r) req (s, []) = ((res, err), (s', tr))"
    and "CreateDeployment dep rd \<in> set tr"
  shows "Replicas (Deployment_Spec dep) = None \<and>
         (\<exists>web cm refs. dep = (new_Deployment web cm)\<lparr>OwnerReferences := refs\<rparr> \<and>
            (\<forall>n. new_Deployment (web\<lparr>Spec := (Spec web)\<lparr>Size := n\<rparr>\<rparr>) cm = new_Deployment web cm))"
proof -
  from assms obtain web cm refs where "dep = (new_Deployment web cm)\<lparr>OwnerReferences := refs\<rparr>"
    by (cases rule: pass_cases) auto
  then show ?thesis
    using new_Deployment_Replicas new_Deployment_Size by auto
qed

theorem Replicas_not_propagated_witness:
  "Reconcile (recording (store (Some web_gvk) healthy)) site_request (site_only, []) =
     ((Result_zero, None), (site_converged, first_pass_trace)) \<and>
   CreateDeployment site_deployment None \<in> set first_pass_trace \<and>
   Size (Spec site) = 2 \<and>
   Replicas (Deployment_Spec site_deployment) = None"
proof -
  have h: "CreateDeployment site_deployment None \<in> set first_pass_trace"
    by (simp add: first_pass_trace_def)
  have "Size (Spec site) = 2"
    by (simp add: site_def)
  with Replicas_not_propagated [OF site_first_pass h] site_first_pass h show ?thesis
    by blast
qed

text \<open>
  C9. In a cluster that holds the Web and its content holder but not its workload, a
  pass over a store without injected failures, with the Web's kind registered,
  returns no error; its only write is the create of the workload; the cluster
  afterwards is the one before with that Deployment added, so its ConfigMaps and
  Webs are the same.
\<close>

theorem resume_creates_only_Deployment:
  assumes "webs c (NamespacedName req) = Some web"
    and "configMaps c (cmKey web) = Some cm"
    and "deployments c (depKey web) = None"
  shows "(case Reconcile (recording (store (Some gvk) healthy)) req (c, []) of
           (out, (c', tr)) \<Rightarrow>
             out = (Result_zero, None) \<and>
             filter is_write tr =
               [CreateDeployment
                  ((new_Deployment web cm)\<lparr>OwnerReferences := [controllerRef gvk web]\<rparr>) None] \<and>
             c' = c\<lparr>deployments := (deployments c)
                    (depKey web \<mapsto>
                       (new_Deployment web cm)\<lparr>OwnerReferences := [controllerRef gvk web]\<rparr>)\<rparr> \<and>
             configMaps c' = configMaps c \<and> webs c' = webs c)"
  using assms
  by (simp add: pass_defs store_def store_get_def store_create_Deployment_def setOwner_def
      objectKey_def healthy_def ObjectMeta.truncate_def)

theorem resume_creates_only_Deployment_witness:
  "Reconcile (recording (store (Some web_gvk) outage)) site_request (site_only, []) =
     ((Result_zero, Some (Failure ''store outage'')), (site_partial, outage_trace)) \<and>
   webs site_partial (NamespacedName site_request) = Some site \<and>
   configMaps site_partial (cmKey site) = Some site_cm \<and>
   deployments site_partial (depKey site) = None \<and>
   (case Reconcile (recording (store (Some web_gvk) healthy)) site_request (site_partial, []) of
      (out, (c', tr)) \<Rightarrow>
        out = (Result_zero, None) \<and>
        filter is_write tr = [CreateDeployment site_deployment None] \<and>
        c' = site_converged \<and>
        configMaps c' = configMaps site_partial \<and> webs c' = webs site_partial)"
proof -
  have h1: "webs site_partial (NamespacedName site_request) = Some site"
    and h2: "configMaps site_partial (cmKey site) = Some site_cm"
    and h3: "deployments site_partial (depKey site) = None"
    by (simp_all add: site_defs)
  have ref: "controllerRef web_gvk site = site_owner"
    by (simp add: controllerRef_def site_defs)
  have conv: "site_partial\<lparr>deployments := (deployments site_partial)(depKey site \<mapsto> site_deployment)\<rparr> =
      site_converged"
    by (simp add: site_converged_def site_partial_def site_only_def site_def)
  from resume_creates_only_Deployment [OF h1 h2 h3, of web_gvk]
  have "(case Reconcile (recording (store (Some web_gvk) healthy)) site_request (site_partial, []) of
      (out, (c', tr)) \<Rightarrow>
        out = (Result_zero, None) \<and>
        filter is_write tr = [CreateDeployment site_deployment None] \<and>
        c' = site_converged \<and>
        configMaps c' = configMaps site_partial \<and> webs c' = webs site_partial)"
    by (simp add: ref site_new_Deployment conv)
  with site_outage_pass h1 h2 h3 show ?thesis by blast
qed

text \<open>Facts for the last claim: what of the Web the pass over the store depends on.\<close>

lemma setOwner_Spec: "setOwner sch (web\<lparr>Spec := sp\<rparr>) m = setOwner sch web m"
  by (simp add: setOwner_def controllerRef_def split: option.splits)

lemma new_ConfigMap_ContainerPort:
  "new_ConfigMap (web\<lparr>Spec := (Spec web)\<lparr>ContainerPort := p\<rparr>\<rparr>) = new_ConfigMap web"
  by (simp add: new_ConfigMap_def)

lemma new_Deployment_ContainerPort:
  "new_Deployment (web\<lparr>Spec := (Spec web)\<lparr>ContainerPort := p\<rparr>\<rparr>) cm = new_Deployment web cm"
  by (simp add: new_Deployment_def)

lemma new_Deployment_Ports:
  "map Ports (Containers (Template_Spec (Template (Deployment_Spec (new_Deployment web cm))))) = [[]]"
  by (simp add: new_Deployment_def)

lemma created_Deployment_Ports:
  assumes "Reconcile (recording r) req (s, []) = ((res, err), (s', tr))"
    and "CreateDeployment dep rd \<in> set tr"
  shows "map Ports (Containers (Template_Spec (Template (Deployment_Spec dep)))) = [[]]"
proof -
  from assms obtain web cm refs where "dep = (new_Deployment web cm)\<lparr>OwnerReferences := refs\<rparr>"
    by (cases rule: pass_cases) auto
  then show ?thesis
    using new_Deployment_Ports by simp
qed

lemma store_pass_ContainerPort:
  fixes web :: Web and p :: int32
  defines "web' \<equiv> web\<lparr>Spec := (Spec web)\<lparr>ContainerPort := p\<rparr>\<rparr>"
  shows "(case Reconcile (recording (store sch inject)) req (c\<lparr>webs := (webs c)(NamespacedName req \<mapsto> web)\<rparr>, []) of
           (out1, (c1, tr1)) \<Rightarrow>
          (case Reconcile (recording (store sch inject)) req (c\<lparr>webs := (webs c)(NamespacedName req \<mapsto> web')\<rparr>, []) of
           (out2, (c2, tr2)) \<Rightarrow>
             out1 = out2 \<and> filter is_write tr1 = filter is_write tr2 \<and>
             configMaps c1 = configMaps c2 \<and> deployments c1 = deployments c2))"
  unfolding web'_def
  by (simp add: pass_defs store_def store_get_def store_create_ConfigMap_def
      store_create_Deployment_def objectKey_def
      setOwner_Spec new_ConfigMap_ContainerPort new_Deployment_ContainerPort
      split: option.splits sum.splits)

text \<open>
  C10. Two clusters that differ only in the \<^verbatim>\<open>ContainerPort\<close> of the Web under the
  request's key: over the store, with any scheme and any injected failures, the two
  passes return the same outcome, make the same writes with the same answers, and
  leave the same ConfigMaps and Deployments; and a Deployment passed to create has one
  container, which declares no port.
\<close>

theorem ContainerPort_has_no_influence:
  fixes web :: Web and p :: int32
  shows "(case Reconcile (recording (store sch inject)) req
                (c\<lparr>webs := (webs c)(NamespacedName req \<mapsto> web)\<rparr>, []) of
           (out1, (c1, tr1)) \<Rightarrow>
          (case Reconcile (recording (store sch inject)) req
                (c\<lparr>webs := (webs c)(NamespacedName req \<mapsto>
                               web\<lparr>Spec := (Spec web)\<lparr>ContainerPort := p\<rparr>\<rparr>)\<rparr>, []) of
           (out2, (c2, tr2)) \<Rightarrow>
             out1 = out2 \<and> filter is_write tr1 = filter is_write tr2 \<and>
             configMaps c1 = configMaps c2 \<and> deployments c1 = deployments c2 \<and>
             (\<forall>dep rd. CreateDeployment dep rd \<in> set tr1 \<longrightarrow>
                map Ports (Containers (Template_Spec (Template (Deployment_Spec dep)))) = [[]])))"
proof -
  obtain res1 err1 c1 tr1 where
    r1: "Reconcile (recording (store sch inject)) req
           (c\<lparr>webs := (webs c)(NamespacedName req \<mapsto> web)\<rparr>, []) = ((res1, err1), (c1, tr1))"
    by (metis surj_pair)
  have "\<forall>dep rd. CreateDeployment dep rd \<in> set tr1 \<longrightarrow>
      map Ports (Containers (Template_Spec (Template (Deployment_Spec dep)))) = [[]]"
    using created_Deployment_Ports [OF r1] by blast
  with store_pass_ContainerPort
         [where sch = sch and inject = inject and req = req and c = c and web = web and p = p]
    r1
  show ?thesis
    by (simp split: prod.splits)
qed

theorem ContainerPort_has_no_influence_witness:
  "ContainerPort (Spec site) = 80 \<and>
   (case Reconcile (recording (store (Some web_gvk) healthy)) site_request
           (site_only\<lparr>webs := (webs site_only)(NamespacedName site_request \<mapsto> site)\<rparr>, []) of
      (out1, (c1, tr1)) \<Rightarrow>
     (case Reconcile (recording (store (Some web_gvk) healthy)) site_request
           (site_only\<lparr>webs := (webs site_only)(NamespacedName site_request \<mapsto>
                                 site\<lparr>Spec := (Spec site)\<lparr>ContainerPort := 8080\<rparr>\<rparr>)\<rparr>, []) of
      (out2, (c2, tr2)) \<Rightarrow>
        out1 = out2 \<and> filter is_write tr1 = filter is_write tr2 \<and>
        configMaps c1 = configMaps c2 \<and> deployments c1 = deployments c2 \<and>
        CreateDeployment site_deployment None \<in> set tr1 \<and>
        map Ports (Containers (Template_Spec (Template (Deployment_Spec site_deployment)))) = [[]]))"
proof -
  have h0: "site_only\<lparr>webs := (webs site_only)(NamespacedName site_request \<mapsto> site)\<rparr> = site_only"
    by (simp add: site_only_def site_request_def)
  have h1: "CreateDeployment site_deployment None \<in> set first_pass_trace"
    by (simp add: first_pass_trace_def)
  have h2: "ContainerPort (Spec site) = 80"
    by (simp add: site_def)
  from ContainerPort_has_no_influence
         [where sch = "Some web_gvk" and inject = healthy and req = site_request
            and c = site_only and web = site and p = 8080]
    h1 h2
  show ?thesis
    by (auto simp: h0 site_first_pass split: prod.splits)
qed

end
